theory Spec2Isabelle
  imports Complex_Main "HOL-Library.Sublist" "HOL-Library.AList"
begin

section \<open>SkyWatch Radar: aircraft reconciliation, trails, filtering, classification\<close>

text \<open>
  The development embeds \<^verbatim>\<open>src/js/config.js\<close> (the frozen \<^verbatim>\<open>CONFIG\<close> object and the
  \<^verbatim>\<open>App\<close> poller), \<^verbatim>\<open>src/js/api.js\<close> (rate limiting, fetching, parsing, classification)
  and \<^verbatim>\<open>src/js/aircraft.js\<close> (the \<^verbatim>\<open>AircraftManager\<close>).

  Conventions of the embedding.
  \<^item> JavaScript numbers that hold timestamps, rounded altitudes and speeds are integers
    (\<open>int\<close>); latitudes, longitudes and distances are idealised as \<open>real\<close>, so the
    rounding of IEEE doubles is outside the model.
  \<^item> Strings are \<open>char list\<close>; case conversion and white space are those of ASCII
    (plus the no-break space), as all configured prefixes and ICAO addresses are ASCII.
  \<^item> \<^verbatim>\<open>null\<close> is \<open>None\<close>. A property that an object may lack is an \<open>option\<close> as well.
  \<^item> Every \<^verbatim>\<open>Date.now()\<close> read during one synchronous call is the one instant passed
    to the function as \<open>now\<close>.
  \<^item> Objects are values. The observations handed to \<^verbatim>\<open>updateAircraft\<close> are fresh
    objects, as every poll parses the feed anew: a batch shares no object with the store.
\<close>

subsection \<open>CONFIG\<close>

definition minInterval :: int where
  \<comment> \<open>\<^verbatim>\<open>CONFIG.api.opensky.rateLimit.minInterval\<close>\<close>
  "minInterval = 10000"

definition icaoRanges :: "(int \<times> int) list" where
  \<comment> \<open>\<^verbatim>\<open>CONFIG.aircraft.militaryIndicators.icaoRanges\<close>, as (start, end)\<close>
  "icaoRanges = [(0xADF7C8, 0xAFFFFF), (0x43C000, 0x43CFFF), (0x3AA000, 0x3AFFFF), (0x3BA000, 0x3BFFFF)]"

definition callsignPrefixes :: "string list" where
  \<comment> \<open>\<^verbatim>\<open>CONFIG.aircraft.militaryIndicators.callsignPrefixes\<close>\<close>
  "callsignPrefixes = [''RCH'', ''EVAL'', ''ARMY'', ''NAVY'', ''CNV'', ''SPAR'', ''JAKE'',
     ''CHIEF'', ''BOXER'', ''HUNT'', ''NATO'', ''RAF'', ''GAF'', ''RSAF'']"

definition trailMaxPoints :: nat where
  \<comment> \<open>\<^verbatim>\<open>CONFIG.aircraft.display.trailMaxPoints\<close>\<close>
  "trailMaxPoints = 100"

definition trailDuration :: int where
  \<comment> \<open>\<^verbatim>\<open>CONFIG.aircraft.display.trailDuration\<close>, milliseconds\<close>
  "trailDuration = 600000"

definition features_trails :: bool where
  \<comment> \<open>\<^verbatim>\<open>CONFIG.features.trails\<close>\<close>
  "features_trails = True"

definition dataQuality_minSpeed :: int where
  \<comment> \<open>\<^verbatim>\<open>CONFIG.dataQuality.minSpeed\<close>, knots\<close>
  "dataQuality_minSpeed = 30"

definition dataQuality_maxSpeed :: int where
  "dataQuality_maxSpeed = 700"

definition dataQuality_minAltitude :: int where
  \<comment> \<open>\<^verbatim>\<open>CONFIG.dataQuality.minAltitude\<close>, feet\<close>
  "dataQuality_minAltitude = - 1000"

definition dataQuality_maxAltitude :: int where
  "dataQuality_maxAltitude = 60000"

subsection \<open>Built-in string functions\<close>

definition isWhiteSpace :: "char \<Rightarrow> bool" where
  \<comment> \<open>TAB, LF, VT, FF, CR, SP, NBSP\<close>
  "isWhiteSpace c = (of_char c \<in> {9, 10, 11, 12, 13, 32, 160 :: nat})"

definition trim :: "string \<Rightarrow> string" where
  \<comment> \<open>\<^verbatim>\<open>String.prototype.trim\<close>\<close>
  "trim s = rev (dropWhile isWhiteSpace (rev (dropWhile isWhiteSpace s)))"

definition toUpperCase :: "string \<Rightarrow> string" where
  \<comment> \<open>the letters a to z become A to Z, every other character stays\<close>
  "toUpperCase s =
     map (\<lambda>c. case map_of (zip ''abcdefghijklmnopqrstuvwxyz'' ''ABCDEFGHIJKLMNOPQRSTUVWXYZ'') c of
                None \<Rightarrow> c | Some d \<Rightarrow> d) s"

definition toLowerCase :: "string \<Rightarrow> string" where
  "toLowerCase s =
     map (\<lambda>c. case map_of (zip ''ABCDEFGHIJKLMNOPQRSTUVWXYZ'' ''abcdefghijklmnopqrstuvwxyz'') c of
                None \<Rightarrow> c | Some d \<Rightarrow> d) s"

definition startsWith :: "string \<Rightarrow> string \<Rightarrow> bool" where
  "startsWith s p = prefix p s"

fun includes_str :: "string \<Rightarrow> string \<Rightarrow> bool" where
  \<comment> \<open>\<^verbatim>\<open>s.includes(q)\<close>: \<open>q\<close> occurs in \<open>s\<close> as a contiguous substring\<close>
  "includes_str [] q = (q = [])"
| "includes_str (c # cs) q = (prefix q (c # cs) \<or> includes_str cs q)"

definition isHexDigit :: "char \<Rightarrow> bool" where
  "isHexDigit c = (let n = of_char c :: nat in
     (48 \<le> n \<and> n \<le> 57) \<or> (65 \<le> n \<and> n \<le> 70) \<or> (97 \<le> n \<and> n \<le> 102))"

definition hexDigitValue :: "char \<Rightarrow> nat" where
  "hexDigitValue c = (let n = of_char c :: nat in
     if n \<le> 57 then n - 48 else if n \<le> 70 then n - 55 else n - 87)"

definition parseInt16_body :: "string \<Rightarrow> int option" where
  \<comment> \<open>\<^verbatim>\<open>parseInt(str, 16)\<close> once leading white space is gone: an optional sign, an
      optional \<^verbatim>\<open>0x\<close>, then the longest run of hex digits; \<open>None\<close> is NaN\<close>
  "parseInt16_body s =
     (let neg = (take 1 s = ''-'');
          s1 = (if take 1 s = ''+'' \<or> take 1 s = ''-'' then drop 1 s else s);
          s2 = (if take 2 s1 = ''0x'' \<or> take 2 s1 = ''0X'' then drop 2 s1 else s1);
          z = takeWhile isHexDigit s2
      in if z = [] then None
         else Some ((if neg then - 1 else 1) * int (foldl (\<lambda>acc c. 16 * acc + hexDigitValue c) 0 z)))"

definition parseInt16 :: "string \<Rightarrow> int option" where
  "parseInt16 str = parseInt16_body (dropWhile isWhiteSpace str)"

subsection \<open>Classifier (api.js)\<close>

definition isMilitaryAircraft :: "string \<Rightarrow> string option \<Rightarrow> bool" where
  "isMilitaryAircraft icao callsign_opt =
     (if icao = [] then False
      else
        let icaoNum = parseInt16 (trim icao);
            inMilitaryRange = (case icaoNum of
                 None \<Rightarrow> False
               | Some n \<Rightarrow> list_ex (\<lambda>(start, end). n \<ge> start \<and> n \<le> end) icaoRanges)
        in if inMilitaryRange then True
           else (case callsign_opt of
                   None \<Rightarrow> False
                 | Some cs \<Rightarrow>
                     if cs = [] then False
                     else let cleanCallsign = toUpperCase (trim cs)
                          in list_ex (\<lambda>p. startsWith cleanCallsign p) callsignPrefixes))"

subsection \<open>Data model\<close>

record trail_point =
  p_lat :: real
  p_lon :: real
  p_altitude :: "int option"
  p_time :: int

text \<open>
  The aircraft object built by \<^verbatim>\<open>parseStateVector\<close> and stored in \<^verbatim>\<open>aircraftMap\<close>.
  \<open>trail = None\<close> stands for an object without a \<^verbatim>\<open>trail\<close> property, the case
  \<^verbatim>\<open>addTrailPoint\<close> tests with \<^verbatim>\<open>!aircraft.trail\<close>; \<open>lastSeen\<close> is \<^verbatim>\<open>_lastSeen\<close>.
\<close>

record aircraft =
  icao24 :: string
  callsign :: string
  origin :: string
  lat :: real
  lon :: real
  altitude :: "int option"
  onGround :: bool
  speed :: "int option"
  heading :: "int option"
  verticalRate :: "int option"
  lastUpdate :: "int option"
  positionUpdate :: "int option"
  squawk :: "string option"
  positionSource :: string
  isMilitary :: bool
  trail :: "trail_point list option"
  lastSeen :: int

record filter_state =
  civilian :: bool
  military :: bool
  minAltitude :: int
  maxAltitude :: int
  searchQuery :: string

text \<open>
  The module state of \<^verbatim>\<open>AircraftManager\<close>. The JavaScript \<^verbatim>\<open>Map\<close> is an association
  list in insertion order. \<^verbatim>\<open>selectedAircraft\<close> is a reference to an object held in the
  map, which is always the one stored under its own \<^verbatim>\<open>icao24\<close>: the reference is
  modelled by that key, and \<^verbatim>\<open>null\<close> by \<open>None\<close>.
\<close>

record manager =
  aircraftMap :: "(string \<times> aircraft) list"
  filteredAircraft :: "aircraft list"
  selectedAircraft :: "string option"
  filters :: filter_state

definition init_manager :: manager where
  "init_manager = \<lparr>aircraftMap = [], filteredAircraft = [], selectedAircraft = None,
     filters = \<lparr>civilian = True, military = True, minAltitude = 0, maxAltitude = 45000,
                 searchQuery = []\<rparr>\<rparr>"

subsection \<open>Trail tracker (aircraft.js)\<close>

definition toRad :: "real \<Rightarrow> real" where
  "toRad degrees = degrees * (pi / 180)"

definition atan2 :: "real \<Rightarrow> real \<Rightarrow> real" where
  \<comment> \<open>\<^verbatim>\<open>Math.atan2(y, x)\<close> on real numbers\<close>
  "atan2 y x =
     (if x > 0 then arctan (y / x)
      else if x < 0 then (if y \<ge> 0 then arctan (y / x) + pi else arctan (y / x) - pi)
      else if y > 0 then pi / 2 else if y < 0 then - (pi / 2) else 0)"

definition calculateDistance :: "real \<Rightarrow> real \<Rightarrow> real \<Rightarrow> real \<Rightarrow> real" where
  "calculateDistance lat1 lon1 lat2 lon2 =
     (let R = 6371;
          dLat = toRad (lat2 - lat1);
          dLon = toRad (lon2 - lon1);
          a = sin (dLat / 2) * sin (dLat / 2) +
              cos (toRad lat1) * cos (toRad lat2) * sin (dLon / 2) * sin (dLon / 2);
          c = 2 * atan2 (sqrt a) (sqrt (1 - a))
      in R * c)"

definition addTrailPoint :: "int \<Rightarrow> aircraft \<Rightarrow> aircraft \<Rightarrow> aircraft" where
  "addTrailPoint now ac newData =
     (let tr = (case trail ac of None \<Rightarrow> [] | Some t \<Rightarrow> t) in
      if tr \<noteq> [] \<and>
         calculateDistance (p_lat (last tr)) (p_lon (last tr)) (lat newData) (lon newData) < 0.1
      then ac\<lparr>trail := Some tr\<rparr>
      else
        let pushed = tr @ [\<lparr>p_lat = lat newData, p_lon = lon newData,
                              p_altitude = altitude newData, p_time = now\<rparr>];
            maxPoints = trailMaxPoints;
            sliced = (if length pushed > maxPoints
                      then drop (length pushed - maxPoints) pushed else pushed);
            maxAge = trailDuration
        in ac\<lparr>trail := Some (filter (\<lambda>point. now - p_time point < maxAge) sliced)\<rparr>)"

subsection \<open>Filter engine (aircraft.js)\<close>

definition passesFilters :: "filter_state \<Rightarrow> aircraft \<Rightarrow> bool" where
  \<comment> \<open>the callback given to \<^verbatim>\<open>filter\<close> in \<^verbatim>\<open>applyFilters\<close>\<close>
  "passesFilters f ac =
     (if isMilitary ac \<and> \<not> military f then False
      else if \<not> isMilitary ac \<and> \<not> civilian f then False
      else if (case altitude ac of None \<Rightarrow> False
               | Some alt \<Rightarrow> alt < minAltitude f \<or> alt > maxAltitude f) then False
      else if searchQuery f \<noteq> [] \<and>
              (let query = toLowerCase (searchQuery f);
                   cs = toLowerCase (callsign ac);
                   icao = toLowerCase (icao24 ac)
               in \<not> includes_str cs query \<and> \<not> includes_str icao query) then False
      else True)"

definition applyFilters :: "manager \<Rightarrow> manager" where
  "applyFilters s = s\<lparr>filteredAircraft := filter (passesFilters (filters s)) (map snd (aircraftMap s))\<rparr>"

datatype filter_setting =
    Civilian bool | Military bool | MinAltitude int | MaxAltitude int | SearchQuery string
  | OtherName string

fun setFilter :: "filter_setting \<Rightarrow> manager \<Rightarrow> bool \<times> manager" where
  "setFilter (Civilian v) s = (True, applyFilters (s\<lparr>filters := (filters s)\<lparr>civilian := v\<rparr>\<rparr>))"
| "setFilter (Military v) s = (True, applyFilters (s\<lparr>filters := (filters s)\<lparr>military := v\<rparr>\<rparr>))"
| "setFilter (MinAltitude v) s = (True, applyFilters (s\<lparr>filters := (filters s)\<lparr>minAltitude := v\<rparr>\<rparr>))"
| "setFilter (MaxAltitude v) s = (True, applyFilters (s\<lparr>filters := (filters s)\<lparr>maxAltitude := v\<rparr>\<rparr>))"
| "setFilter (SearchQuery v) s = (True, applyFilters (s\<lparr>filters := (filters s)\<lparr>searchQuery := v\<rparr>\<rparr>))"
| "setFilter (OtherName n) s = (False, s)"

definition getFilteredAircraft :: "manager \<Rightarrow> aircraft list" where
  "getFilteredAircraft s = filteredAircraft s"

definition getAircraft :: "string \<Rightarrow> manager \<Rightarrow> aircraft option" where
  "getAircraft icao s = map_of (aircraftMap s) icao"

definition selectAircraft :: "string \<Rightarrow> manager \<Rightarrow> manager" where
  "selectAircraft icao s =
     s\<lparr>selectedAircraft := (case getAircraft icao s of None \<Rightarrow> None | Some ac \<Rightarrow> Some icao)\<rparr>"

definition getSelectedAircraft :: "manager \<Rightarrow> aircraft option" where
  "getSelectedAircraft s =
     (case selectedAircraft s of None \<Rightarrow> None | Some icao \<Rightarrow> getAircraft icao s)"

definition countMilitary :: "manager \<Rightarrow> nat" where
  "countMilitary s = length (filter isMilitary (map snd (aircraftMap s)))"

subsection \<open>State store (aircraft.js)\<close>

definition Object_assign :: "aircraft \<Rightarrow> aircraft \<Rightarrow> aircraft" where
  \<comment> \<open>\<^verbatim>\<open>Object.assign(existing, aircraft)\<close>: every own property of the source overwrites
      the target's; a source without \<^verbatim>\<open>trail\<close> leaves the target's trail\<close>
  "Object_assign existing ac =
     ac\<lparr>trail := (case trail ac of None \<Rightarrow> trail existing | Some t \<Rightarrow> Some t)\<rparr>"

definition mergeAircraft :: "int \<Rightarrow> aircraft \<Rightarrow> manager \<Rightarrow> manager" where
  \<comment> \<open>the body of the \<^verbatim>\<open>forEach\<close> in \<^verbatim>\<open>updateAircraft\<close>\<close>
  "mergeAircraft now ac s =
     (let icao = icao24 ac in
      case map_of (aircraftMap s) icao of
        Some existing \<Rightarrow>
          let existing1 = (if features_trails then addTrailPoint now existing ac else existing);
              existing2 = Object_assign existing1 ac
          in s\<lparr>aircraftMap := AList.update icao (existing2\<lparr>lastSeen := now\<rparr>) (aircraftMap s)\<rparr>
      | None \<Rightarrow>
          s\<lparr>aircraftMap := AList.update icao (ac\<lparr>lastSeen := now, trail := Some []\<rparr>) (aircraftMap s)\<rparr>)"

definition timeout :: int where
  "timeout = 120000"

fun sweep :: "int \<Rightarrow> string set \<Rightarrow> (string \<times> aircraft) list \<Rightarrow> manager \<Rightarrow> manager" where
  \<comment> \<open>the \<^verbatim>\<open>for ... of aircraftMap.entries()\<close> loop, over the entries still to visit\<close>
  "sweep now currentIcaos [] s = s"
| "sweep now currentIcaos ((icao, ac) # rest) s =
     sweep now currentIcaos rest
       (if icao \<notin> currentIcaos \<and> now - lastSeen ac > timeout
        then s\<lparr>aircraftMap := AList.delete icao (aircraftMap s),
               selectedAircraft := (if selectedAircraft s = Some icao then None
                                    else selectedAircraft s)\<rparr>
        else s)"

definition updateAircraft :: "int \<Rightarrow> aircraft list \<Rightarrow> manager \<Rightarrow> manager" where
  "updateAircraft now newAircraftList s =
     (let currentIcaos = set (map icao24 newAircraftList);
          merged = fold (mergeAircraft now) newAircraftList s
      in applyFilters (sweep now currentIcaos (aircraftMap merged) merged))"

record update_stats =
  total :: nat
  filtered :: nat
  military_count :: nat

definition updateAircraft_result :: "int \<Rightarrow> aircraft list \<Rightarrow> manager \<Rightarrow> update_stats" where
  \<comment> \<open>the object \<^verbatim>\<open>updateAircraft\<close> returns\<close>
  "updateAircraft_result now newAircraftList s =
     (let s' = updateAircraft now newAircraftList s
      in \<lparr>total = length (aircraftMap s'), filtered = length (filteredAircraft s'),
          military_count = countMilitary s'\<rparr>)"

subsection \<open>Parser (api.js)\<close>

text \<open>
  A state vector of the upstream feed, with the names \<^verbatim>\<open>parseStateVector\<close> gives its
  seventeen entries (the three that clash with the aircraft's fields are prefixed). The feed
  is JSON, so a number is never NaN and an entry is a value or \<^verbatim>\<open>null\<close>; the address
  \<^verbatim>\<open>icao24\<close> is always a string. \<open>TooShort\<close> is a vector that is missing or has fewer than
  seventeen entries.
\<close>

record state_vector =
  raw_icao24 :: string
  raw_callsign :: "string option"
  origin_country :: "string option"
  time_position :: "int option"
  last_contact :: "int option"
  longitude :: "real option"
  latitude :: "real option"
  baro_altitude :: "real option"
  on_ground :: "bool option"
  velocity :: "real option"
  true_track :: "real option"
  vertical_rate :: "real option"
  sensors :: "int list option"
  geo_altitude :: "real option"
  raw_squawk :: "string option"
  spi :: "bool option"
  position_source :: "int option"

datatype raw_state = TooShort | StateVector state_vector

definition Math_round :: "real \<Rightarrow> int" where
  \<comment> \<open>\<^verbatim>\<open>Math.round\<close>: the nearest integer, halves upwards\<close>
  "Math_round x = \<lfloor>x + 1 / 2\<rfloor>"

definition isValidAircraftData :: "real \<Rightarrow> real \<Rightarrow> int option \<Rightarrow> int option \<Rightarrow> bool" where
  "isValidAircraftData lat' lon' alt spd =
     (if lat' < - 90 \<or> lat' > 90 then False
      else if lon' < - 180 \<or> lon' > 180 then False
      else if (case alt of None \<Rightarrow> False
               | Some a \<Rightarrow> a < dataQuality_minAltitude \<or> a > dataQuality_maxAltitude) then False
      else if (case spd of None \<Rightarrow> False
               | Some v \<Rightarrow> v < dataQuality_minSpeed \<or> v > dataQuality_maxSpeed) then False
      else True)"

fun parseStateVector :: "int \<Rightarrow> raw_state \<Rightarrow> aircraft option" where
  "parseStateVector now TooShort = None"
| "parseStateVector now (StateVector v) =
     (case latitude v of
        None \<Rightarrow> None
      | Some lat' \<Rightarrow>
         (case longitude v of
            None \<Rightarrow> None
          | Some lon' \<Rightarrow>
             let alt = map_option (\<lambda>b. Math_round (b * 3.28084)) (baro_altitude v);
                 spd = map_option (\<lambda>b. Math_round (b * 1.94384)) (velocity v);
                 vrate = map_option (\<lambda>b. Math_round (b * 196.85)) (vertical_rate v);
                 hdg = map_option Math_round (true_track v)
             in if \<not> isValidAircraftData lat' lon' alt spd then None
                else Some \<lparr>
                  icao24 = trim (raw_icao24 v),
                  callsign = (case raw_callsign v of
                                None \<Rightarrow> ''N/A''
                              | Some c \<Rightarrow> if c = [] then ''N/A'' else trim c),
                  origin = (case origin_country v of
                              None \<Rightarrow> ''Unknown''
                            | Some c \<Rightarrow> if c = [] then ''Unknown'' else c),
                  lat = lat',
                  lon = lon',
                  altitude = alt,
                  onGround = (case on_ground v of None \<Rightarrow> False | Some b \<Rightarrow> b),
                  speed = spd,
                  heading = hdg,
                  verticalRate = vrate,
                  lastUpdate = last_contact v,
                  positionUpdate = time_position v,
                  squawk = raw_squawk v,
                  positionSource = (case position_source v of
                                      None \<Rightarrow> ''Unknown''
                                    | Some n \<Rightarrow> if 0 \<le> n \<and> n < 3
                                                then [''ADS-B'', ''ASTERIX'', ''MLAT''] ! nat n
                                                else ''Unknown''),
                  isMilitary = isMilitaryAircraft (raw_icao24 v) (raw_callsign v),
                  trail = Some [],
                  lastSeen = now\<rparr>))"

subsection \<open>Fetching and rate limiting (api.js)\<close>

text \<open>
  \<open>lastRequestTime\<close> is the module variable. \<open>fetches\<close> is not in the source: it records
  the instants at which \<^verbatim>\<open>fetch(url)\<close> was called, so that outbound requests can be
  counted.
\<close>

record api =
  lastRequestTime :: int
  fetches :: "int list"

definition init_api :: api where
  "init_api = \<lparr>lastRequestTime = 0, fetches = []\<rparr>"

text \<open>
  What the network does with one request: \<^verbatim>\<open>fetch\<close> rejects, or a response arrives at
  some instant with a status, a status text and a body, which either fails to parse as JSON,
  or has no \<^verbatim>\<open>states\<close>, or carries state vectors.
\<close>

datatype json_body = InvalidJson | NoStates | States "raw_state list"

datatype fetch_outcome =
    NetworkError string
  | Response int nat string json_body

datatype api_error =
    FetchRejected string
  | RateLimitExceeded
  | HttpError nat string
  | JsonSyntaxError

definition canMakeRequest :: "int \<Rightarrow> api \<Rightarrow> bool" where
  "canMakeRequest now a =
     (let timeSinceLastRequest = now - lastRequestTime a
      in timeSinceLastRequest \<ge> minInterval)"

definition waitForRateLimit :: "int \<Rightarrow> api \<Rightarrow> int" where
  \<comment> \<open>the instant at which the awaiting caller goes on\<close>
  "waitForRateLimit now a =
     (if canMakeRequest now a then now
      else let timeSinceLastRequest = now - lastRequestTime a;
               waitTime = minInterval - timeSinceLastRequest
           in now + waitTime)"

definition response_ok :: "nat \<Rightarrow> bool" where
  \<comment> \<open>\<^verbatim>\<open>response.ok\<close>\<close>
  "response_ok status = (200 \<le> status \<and> status \<le> 299)"

definition getAllStates :: "int \<Rightarrow> fetch_outcome \<Rightarrow> api \<Rightarrow> (api_error + aircraft list) \<times> api" where
  \<comment> \<open>called without options, as the poller does; \<open>Inl\<close> is the rejected promise\<close>
  "getAllStates now outcome a =
     (let sent = waitForRateLimit now a;
          a1 = a\<lparr>fetches := fetches a @ [sent]\<rparr>
      in case outcome of
           NetworkError msg \<Rightarrow> (Inl (FetchRejected msg), a1)
         | Response arrival status statusText body \<Rightarrow>
             let a2 = a1\<lparr>lastRequestTime := arrival\<rparr>
             in if \<not> response_ok status
                then (if status = 429 then (Inl RateLimitExceeded, a2)
                      else (Inl (HttpError status statusText), a2))
                else (case body of
                        InvalidJson \<Rightarrow> (Inl JsonSyntaxError, a2)
                      | NoStates \<Rightarrow> (Inr [], a2)
                      | States states \<Rightarrow>
                          (Inr (List.map_filter (parseStateVector arrival) states), a2)))"

subsection \<open>Poller (the App module)\<close>

text \<open>
  \<open>toasts\<close> lists the errors for which \<^verbatim>\<open>UI.showToast\<close> was called; rendering
  (\<^verbatim>\<open>updateDisplay\<close>, \<^verbatim>\<open>UI.updateStats\<close>) reads the manager and is not modelled.
\<close>

record app =
  app_api :: api
  app_manager :: manager
  toasts :: "api_error list"

definition arrival_time :: "int \<Rightarrow> fetch_outcome \<Rightarrow> int" where
  "arrival_time now outcome =
     (case outcome of NetworkError msg \<Rightarrow> now | Response arrival status statusText body \<Rightarrow> arrival)"

definition fetchAndUpdate :: "int \<Rightarrow> fetch_outcome \<Rightarrow> app \<Rightarrow> app" where
  "fetchAndUpdate now outcome ap =
     (if \<not> canMakeRequest now (app_api ap) then ap
      else case getAllStates now outcome (app_api ap) of
             (Inr aircraftList, a') \<Rightarrow>
               ap\<lparr>app_api := a',
                  app_manager := updateAircraft (arrival_time now outcome) aircraftList (app_manager ap)\<rparr>
           | (Inl err, a') \<Rightarrow>
               ap\<lparr>app_api := a', toasts := toasts ap @ [err]\<rparr>)"

definition evicted :: "int \<Rightarrow> aircraft list \<Rightarrow> manager \<Rightarrow> string \<Rightarrow> bool" where
  \<comment> \<open>the test of the sweep, read on the store as it was before the call\<close>
  "evicted now batch s k =
     (case map_of (aircraftMap s) k of
        None \<Rightarrow> False
      | Some b \<Rightarrow> k \<notin> icao24 ` set batch \<and> now - lastSeen b > timeout)"

subsection \<open>Sample data\<close>

definition sample_fields :: "real \<Rightarrow> real \<Rightarrow> state_vector" where
  \<comment> \<open>the entries of a state vector for the address \<^verbatim>\<open>a1b2c3\<close> at the given position\<close>
  "sample_fields lat' lon' = \<lparr>
     raw_icao24 = ''a1b2c3'', raw_callsign = Some ''TEST1   '', origin_country = Some ''Germany'',
     time_position = Some 0, last_contact = Some 0, longitude = Some lon', latitude = Some lat',
     baro_altitude = Some 1524, on_ground = Some False, velocity = Some 100,
     true_track = Some 90, vertical_rate = Some 0, sensors = None, geo_altitude = Some 1524,
     raw_squawk = None, spi = Some False, position_source = Some 0\<rparr>"

definition sample_vector :: "real \<Rightarrow> real \<Rightarrow> raw_state" where
  "sample_vector lat' lon' = StateVector (sample_fields lat' lon')"

definition sample_aircraft :: "real \<Rightarrow> real \<Rightarrow> trail_point list option \<Rightarrow> aircraft" where
  \<comment> \<open>the aircraft object \<^verbatim>\<open>parseStateVector\<close> builds from \<open>sample_vector\<close> (see
      \<open>parse_sample\<close>), with the given \<^verbatim>\<open>trail\<close> property (\<open>None\<close>: without one)\<close>
  "sample_aircraft lat' lon' tr = \<lparr>
     icao24 = ''a1b2c3'', callsign = ''TEST1'', origin = ''Germany'', lat = lat', lon = lon',
     altitude = Some 5000, onGround = False, speed = Some 194, heading = Some 90,
     verticalRate = Some 0, lastUpdate = Some 0, positionUpdate = Some 0, squawk = None,
     positionSource = ''ADS-B'', isMilitary = False, trail = tr, lastSeen = 0\<rparr>"

subsection \<open>The classifier as the specification words it\<close>

definition classify_spec :: "string \<Rightarrow> string option \<Rightarrow> bool" where
  \<comment> \<open>true when the id, parsed as a base-16 integer, lies in a configured range, or else the
      trimmed, uppercased callsign starts with a configured prefix\<close>
  "classify_spec ident cs =
     ((case parseInt16 ident of
         None \<Rightarrow> False
       | Some n \<Rightarrow> list_ex (\<lambda>(start, end). start \<le> n \<and> n \<le> end) icaoRanges)
      \<or> (case cs of
            None \<Rightarrow> False
          | Some c \<Rightarrow> list_ex (startsWith (toUpperCase (trim c))) callsignPrefixes))"

subsection \<open>The filter predicate as the specification words it\<close>

definition passes_spec :: "filter_state \<Rightarrow> aircraft \<Rightarrow> bool" where
  \<comment> \<open>the visibility flag of the record's class is on; the altitude, when present, lies in
      the closed band; the search string, when not empty, occurs in the callsign or the id,
      case ignored\<close>
  "passes_spec f ac =
     ((if isMilitary ac then military f else civilian f)
      \<and> (case altitude ac of None \<Rightarrow> True | Some alt \<Rightarrow> minAltitude f \<le> alt \<and> alt \<le> maxAltitude f)
      \<and> (searchQuery f = []
         \<or> includes_str (toLowerCase (callsign ac)) (toLowerCase (searchQuery f))
         \<or> includes_str (toLowerCase (icao24 ac)) (toLowerCase (searchQuery f))))"

subsection \<open>The parser's verdict as the specification words it\<close>

definition altitude_ft :: "state_vector \<Rightarrow> int option" where
  \<comment> \<open>the candidate's altitude: metres to feet, rounded\<close>
  "altitude_ft v = map_option (\<lambda>b. Math_round (b * 3.28084)) (baro_altitude v)"

definition speed_kt :: "state_vector \<Rightarrow> int option" where
  \<comment> \<open>the candidate's speed: metres per second to knots, rounded\<close>
  "speed_kt v = map_option (\<lambda>b. Math_round (b * 1.94384)) (velocity v)"

definition discarded_spec :: "state_vector \<Rightarrow> bool" where
  \<comment> \<open>null position, latitude or longitude out of bounds, altitude or speed implausible\<close>
  "discarded_spec v =
     (latitude v = None \<or> longitude v = None
      \<or> (case latitude v of None \<Rightarrow> False | Some la \<Rightarrow> la < - 90 \<or> 90 < la)
      \<or> (case longitude v of None \<Rightarrow> False | Some lo \<Rightarrow> lo < - 180 \<or> 180 < lo)
      \<or> (case altitude_ft v of None \<Rightarrow> False | Some a \<Rightarrow> a < - 1000 \<or> 60000 < a)
      \<or> (case speed_kt v of None \<Rightarrow> False | Some k \<Rightarrow> k < 30 \<or> 700 < k))"

subsection \<open>Failed fetches\<close>

definition failed_fetch :: "fetch_outcome \<Rightarrow> bool" where
  \<comment> \<open>a network error, or a response whose status is not a success (429 included)\<close>
  "failed_fetch outcome =
     (case outcome of
        NetworkError msg \<Rightarrow> True
      | Response arrival status statusText body \<Rightarrow> \<not> response_ok status)"

definition init_app :: app where
  "init_app = \<lparr>app_api = init_api, app_manager = init_manager, toasts = []\<rparr>"

subsection \<open>Words for the trail\<close>

definition newPoint :: "int \<Rightarrow> aircraft \<Rightarrow> trail_point" where
  \<comment> \<open>the point \<^verbatim>\<open>addTrailPoint\<close> pushes\<close>
  "newPoint now newData = \<lparr>p_lat = lat newData, p_lon = lon newData,
                              p_altitude = altitude newData, p_time = now\<rparr>"

definition trail_of :: "aircraft \<Rightarrow> trail_point list" where
  \<comment> \<open>the trail as it is read: an object without a trail reads as the empty trail\<close>
  "trail_of ac = (case trail ac of None \<Rightarrow> [] | Some t \<Rightarrow> t)"

definition pruned :: "int \<Rightarrow> trail_point list \<Rightarrow> trail_point list" where
  \<comment> \<open>keep the most recent \<open>trailMaxPoints\<close> points, then drop those as old as
      \<open>trailDuration\<close>\<close>
  "pruned now tr = filter (\<lambda>point. now - p_time point < trailDuration)
                     (drop (length tr - trailMaxPoints) tr)"

subsection \<open>Records without their trails\<close>



section \<open>Properties\<close>

subsection \<open>Sample data\<close>

lemma parse_sample:
  "- 90 \<le> lat' \<Longrightarrow> lat' \<le> 90 \<Longrightarrow> - 180 \<le> lon' \<Longrightarrow> lon' \<le> 180 \<Longrightarrow>
   parseStateVector now (sample_vector lat' lon') = Some ((sample_aircraft lat' lon' (Some []))\<lparr>lastSeen := now\<rparr>)"
  by (simp add: sample_vector_def sample_fields_def sample_aircraft_def isValidAircraftData_def Math_round_def
      dataQuality_minAltitude_def dataQuality_maxAltitude_def dataQuality_minSpeed_def
      dataQuality_maxSpeed_def trim_def isWhiteSpace_def isMilitaryAircraft_def parseInt16_def parseInt16_body_def
      isHexDigit_def hexDigitValue_def icaoRanges_def toUpperCase_def callsignPrefixes_def
      startsWith_def)

subsection \<open>The store: merging and sweeping\<close>


lemma sweep_map:
  "aircraftMap (sweep now cur es s) =
     filter (\<lambda>(k, a). \<not> (\<exists>b. (k, b) \<in> set es \<and> k \<notin> cur \<and> now - lastSeen b > timeout)) (aircraftMap s)"
proof (induction es arbitrary: s)
  case Nil
  then show ?case by simp
next
  case (Cons e es)
  obtain k b where e: "e = (k, b)" by (cases e)
  show ?case
    unfolding e by (auto simp: Cons.IH AList.delete_eq intro!: filter_cong)
qed

lemma sweep_selected:
  "selectedAircraft (sweep now cur es s) =
     (case selectedAircraft s of
        None \<Rightarrow> None
      | Some k \<Rightarrow> if (\<exists>b. (k, b) \<in> set es \<and> k \<notin> cur \<and> now - lastSeen b > timeout)
                  then None else Some k)"
proof (induction es arbitrary: s)
  case Nil
  then show ?case by (simp split: option.splits)
next
  case (Cons e es)
  obtain k b where e: "e = (k, b)" by (cases e)
  show ?case
    unfolding e by (auto simp: Cons.IH split: option.splits)
qed


lemma merge_keys:
  "fst ` set (aircraftMap (mergeAircraft now ac s)) = insert (icao24 ac) (fst ` set (aircraftMap s))"
  by (simp add: mergeAircraft_def Let_def dom_update split: option.splits)

lemma merge_distinct:
  "distinct (map fst (aircraftMap s)) \<Longrightarrow> distinct (map fst (aircraftMap (mergeAircraft now ac s)))"
  by (simp add: mergeAircraft_def Let_def distinct_update split: option.splits)

lemma merge_other:
  "k \<noteq> icao24 ac \<Longrightarrow> map_of (aircraftMap (mergeAircraft now ac s)) k = map_of (aircraftMap s) k"
  by (simp add: mergeAircraft_def Let_def update_conv' split: option.splits)

lemma merge_selected: "selectedAircraft (mergeAircraft now ac s) = selectedAircraft s"
  by (simp add: mergeAircraft_def Let_def split: option.splits)


lemma fold_merge_keys:
  "fst ` set (aircraftMap (fold (mergeAircraft now) batch s)) = icao24 ` set batch \<union> fst ` set (aircraftMap s)"
  by (induction batch arbitrary: s) (auto simp: merge_keys)

lemma fold_merge_distinct:
  "distinct (map fst (aircraftMap s)) \<Longrightarrow> distinct (map fst (aircraftMap (fold (mergeAircraft now) batch s)))"
  by (induction batch arbitrary: s) (auto simp: merge_distinct)

lemma fold_merge_other:
  "k \<notin> icao24 ` set batch \<Longrightarrow> map_of (aircraftMap (fold (mergeAircraft now) batch s)) k = map_of (aircraftMap s) k"
  by (induction batch arbitrary: s) (auto simp: merge_other)

lemma fold_merge_selected: "selectedAircraft (fold (mergeAircraft now) batch s) = selectedAircraft s"
  by (induction batch arbitrary: s) (auto simp: merge_selected)


lemma fold_merge_entry:
  assumes "distinct (map fst (aircraftMap s))" and "k \<notin> icao24 ` set batch"
  shows "(k, b) \<in> set (aircraftMap (fold (mergeAircraft now) batch s)) \<longleftrightarrow> (k, b) \<in> set (aircraftMap s)"
proof -
  have "(k, b) \<in> set (aircraftMap (fold (mergeAircraft now) batch s))
          \<longleftrightarrow> map_of (aircraftMap (fold (mergeAircraft now) batch s)) k = Some b"
    using fold_merge_distinct[OF assms(1)] by simp
  also have "\<dots> \<longleftrightarrow> map_of (aircraftMap s) k = Some b"
    using assms(2) by (simp add: fold_merge_other)
  also have "\<dots> \<longleftrightarrow> (k, b) \<in> set (aircraftMap s)"
    using assms(1) by simp
  finally show ?thesis .
qed

lemma sweep_cond:
  assumes "distinct (map fst (aircraftMap s))"
  shows "(\<exists>b. (k, b) \<in> set (aircraftMap (fold (mergeAircraft now) batch s)) \<and> k \<notin> icao24 ` set batch \<and> now - lastSeen b > timeout)
         = (\<exists>b. map_of (aircraftMap s) k = Some b \<and> k \<notin> icao24 ` set batch \<and> now - lastSeen b > timeout)"
  using assms fold_merge_entry[OF assms] by auto

lemma evicted_iff:
  "evicted now batch s k = (\<exists>b. map_of (aircraftMap s) k = Some b \<and> k \<notin> icao24 ` set batch \<and> now - lastSeen b > timeout)"
  by (simp add: evicted_def split: option.splits)

lemma update_map:
  assumes "distinct (map fst (aircraftMap s))"
  shows "aircraftMap (updateAircraft now batch s) =
     filter (\<lambda>(k, a). \<not> evicted now batch s k) (aircraftMap (fold (mergeAircraft now) batch s))"
proof -
  let ?m = "fold (mergeAircraft now) batch s"
  have d: "distinct (map fst (aircraftMap ?m))" using assms by (rule fold_merge_distinct)
  have "(\<exists>b. (k, b) \<in> set (aircraftMap ?m) \<and> k \<notin> icao24 ` set batch \<and> now - lastSeen b > timeout)
         = evicted now batch s k" for k
    unfolding evicted_iff by (rule sweep_cond[OF assms])
  then show ?thesis
    by (simp add: updateAircraft_def applyFilters_def sweep_map Let_def)
qed

lemma update_selected:
  assumes "distinct (map fst (aircraftMap s))"
  shows "selectedAircraft (updateAircraft now batch s) =
     (case selectedAircraft s of None \<Rightarrow> None | Some k \<Rightarrow> if evicted now batch s k then None else Some k)"
proof -
  let ?m = "fold (mergeAircraft now) batch s"
  have d: "distinct (map fst (aircraftMap ?m))" using assms by (rule fold_merge_distinct)
  have "(\<exists>b. (k, b) \<in> set (aircraftMap ?m) \<and> k \<notin> icao24 ` set batch \<and> now - lastSeen b > timeout)
         = evicted now batch s k" for k
    unfolding evicted_iff by (rule sweep_cond[OF assms])
  then show ?thesis
    by (simp add: updateAircraft_def applyFilters_def sweep_selected fold_merge_selected Let_def split: option.splits)
qed




text \<open>
  C1. For every call of \<^verbatim>\<open>updateAircraft\<close>, a record that was in the store is gone after
  the call if and only if its id is not in the batch and more than 120000 ms have passed
  since its \<^verbatim>\<open>_lastSeen\<close>; a record whose id is in the batch is never removed; and when the
  removed record was the selected one, the selection is cleared.
\<close>

theorem C1_eviction:
  assumes "distinct (map fst (aircraftMap s))"
      and "map_of (aircraftMap s) icao = Some ac"
  shows "(map_of (aircraftMap (updateAircraft now batch s)) icao = None
            \<longleftrightarrow> icao \<notin> icao24 ` set batch \<and> now - lastSeen ac > 120000)
       \<and> (icao \<in> icao24 ` set batch \<longrightarrow> map_of (aircraftMap (updateAircraft now batch s)) icao \<noteq> None)
       \<and> (map_of (aircraftMap (updateAircraft now batch s)) icao = None \<and> selectedAircraft s = Some icao
            \<longrightarrow> selectedAircraft (updateAircraft now batch s) = None)"
proof -
  let ?m = "aircraftMap (fold (mergeAircraft now) batch s)"
  have ev: "evicted now batch s icao \<longleftrightarrow> icao \<notin> icao24 ` set batch \<and> now - lastSeen ac > 120000"
    using assms(2) by (simp add: evicted_iff timeout_def)
  have "icao \<in> fst ` set (aircraftMap s)"
    using assms(2) by (metis domI dom_map_of_conv_image_fst)
  then have mem: "icao \<in> fst ` set ?m"
    by (simp add: fold_merge_keys)
  have "map_of (aircraftMap (updateAircraft now batch s)) icao = None
          \<longleftrightarrow> icao \<notin> fst ` set (aircraftMap (updateAircraft now batch s))"
    by (simp add: map_of_eq_None_iff)
  also have "\<dots> \<longleftrightarrow> evicted now batch s icao"
    using mem by (auto simp: update_map[OF assms(1)])
  finally have gone: "map_of (aircraftMap (updateAircraft now batch s)) icao = None
          \<longleftrightarrow> icao \<notin> icao24 ` set batch \<and> now - lastSeen ac > 120000"
    using ev by simp
  have sel: "map_of (aircraftMap (updateAircraft now batch s)) icao = None \<and> selectedAircraft s = Some icao
            \<longrightarrow> selectedAircraft (updateAircraft now batch s) = None"
    using gone ev by (simp add: update_selected[OF assms(1)])
  show ?thesis using gone sel by blast
qed

theorem C1_eviction_witness:
  "distinct (map fst (aircraftMap (selectAircraft ''a1b2c3''
       (updateAircraft 0 [sample_aircraft 10 10 (Some [])] init_manager))))
   \<and> map_of (aircraftMap (selectAircraft ''a1b2c3''
       (updateAircraft 0 [sample_aircraft 10 10 (Some [])] init_manager))) ''a1b2c3''
       = Some (sample_aircraft 10 10 (Some []))
   \<and> selectedAircraft (selectAircraft ''a1b2c3''
       (updateAircraft 0 [sample_aircraft 10 10 (Some [])] init_manager)) = Some ''a1b2c3''
   \<and> map_of (aircraftMap (updateAircraft 121000 [] (selectAircraft ''a1b2c3''
       (updateAircraft 0 [sample_aircraft 10 10 (Some [])] init_manager)))) ''a1b2c3'' = None
   \<and> selectedAircraft (updateAircraft 121000 [] (selectAircraft ''a1b2c3''
       (updateAircraft 0 [sample_aircraft 10 10 (Some [])] init_manager))) = None
   \<and> map_of (aircraftMap (updateAircraft 120000 [] (selectAircraft ''a1b2c3''
       (updateAircraft 0 [sample_aircraft 10 10 (Some [])] init_manager)))) ''a1b2c3'' \<noteq> None
   \<and> map_of (aircraftMap (updateAircraft 121000 [sample_aircraft 10 10 (Some [])]
       (selectAircraft ''a1b2c3''
       (updateAircraft 0 [sample_aircraft 10 10 (Some [])] init_manager)))) ''a1b2c3'' \<noteq> None"
proof -
  let ?a = "sample_aircraft 10 10 (Some [])"
  let ?s = "selectAircraft ''a1b2c3'' (updateAircraft 0 [?a] init_manager)"
  have m: "aircraftMap ?s = [(''a1b2c3'', ?a)]"
    by (simp add: selectAircraft_def updateAircraft_def init_manager_def mergeAircraft_def
        applyFilters_def sample_aircraft_def timeout_def)
  have sel: "selectedAircraft ?s = Some ''a1b2c3''"
    by (simp add: selectAircraft_def getAircraft_def updateAircraft_def init_manager_def
        mergeAircraft_def applyFilters_def sample_aircraft_def timeout_def)
  have d: "distinct (map fst (aircraftMap ?s))" by (simp add: m)
  have g: "map_of (aircraftMap ?s) ''a1b2c3'' = Some ?a" by (simp add: m)
  have ls: "lastSeen ?a = 0" and ic: "icao24 ?a = ''a1b2c3''" by (simp_all add: sample_aircraft_def)
  show ?thesis
    using d g sel ls ic
      C1_eviction [OF d g, of 121000 "[]"]
      C1_eviction [OF d g, of 120000 "[]"]
      C1_eviction [OF d g, of 121000 "[?a]"]
    by simp
qed

subsection \<open>The classifier\<close>

lemma ws_not_hex: "isWhiteSpace c \<Longrightarrow> \<not> isHexDigit c"
  by (auto simp: isWhiteSpace_def isHexDigit_def Let_def)

lemma take1_ws:
  assumes "\<forall>c\<in>set w. isWhiteSpace c" "\<not> isWhiteSpace d"
  shows "take 1 (u @ w) = [d] \<longleftrightarrow> take 1 u = [d]"
  using assms by (cases u; cases w) auto

lemma take2_ws:
  assumes "\<forall>c\<in>set w. isWhiteSpace c" "\<not> isWhiteSpace d" "\<not> isWhiteSpace e"
  shows "take 2 (u @ w) = [d, e] \<longleftrightarrow> take 2 u = [d, e]"
proof (cases u)
  case Nil
  then show ?thesis using assms by (cases w) (auto simp: take_Suc_conv_app_nth numeral_2_eq_2 take_Suc)
next
  case (Cons a u')
  then show ?thesis using assms by (cases u'; cases w) (auto simp: numeral_2_eq_2)
qed

lemma takeWhile_hex_ws:
  assumes "\<forall>c\<in>set w. isWhiteSpace c"
  shows "takeWhile isHexDigit (u @ w) = takeWhile isHexDigit u"
proof -
  have "takeWhile isHexDigit w = []"
    using assms by (cases w) (auto dest: ws_not_hex)
  show ?thesis
  proof (cases "\<forall>x\<in>set u. isHexDigit x")
    case True
    then have a: "takeWhile isHexDigit u = u" by simp
    have "takeWhile isHexDigit (u @ w) = u @ takeWhile isHexDigit w"
      using True by simp
    then show ?thesis
      unfolding a \<open>takeWhile isHexDigit w = []\<close> by simp
  next
    case False
    then obtain x where "x \<in> set u" "\<not> isHexDigit x" by blast
    then show ?thesis by simp
  qed
qed

lemma parseInt16_body_ws:
  assumes "\<forall>c\<in>set w. isWhiteSpace c"
  shows "parseInt16_body (u @ w) = parseInt16_body u"
proof -
  have nw: "\<not> isWhiteSpace CHR ''-''" "\<not> isWhiteSpace CHR ''+''" "\<not> isWhiteSpace CHR ''0''"
    "\<not> isWhiteSpace CHR ''x''" "\<not> isWhiteSpace CHR ''X''"
    by (simp_all add: isWhiteSpace_def)
  have t1: "take 1 (u @ w) = ''-'' \<longleftrightarrow> take 1 u = ''-''" "take 1 (u @ w) = ''+'' \<longleftrightarrow> take 1 u = ''+''"
    using take1_ws[OF assms] nw by blast+
  have d1: "take 1 u = [d] \<Longrightarrow> drop 1 (u @ w) = drop 1 u @ w" for d
    by (cases u) auto
  have t2: "take 2 (v @ w) = ''0x'' \<longleftrightarrow> take 2 v = ''0x''" "take 2 (v @ w) = ''0X'' \<longleftrightarrow> take 2 v = ''0X''" for v
    using take2_ws[OF assms] nw by blast+
  have d2: "take 2 v = [d, e] \<Longrightarrow> drop 2 (v @ w) = drop 2 v @ w" for v d e
    by (cases v; cases "tl v") (auto simp: numeral_2_eq_2)
  define s1 where "s1 = (if take 1 u = ''+'' \<or> take 1 u = ''-'' then drop 1 u else u)"
  define s2 where "s2 = (if take 2 s1 = ''0x'' \<or> take 2 s1 = ''0X'' then drop 2 s1 else s1)"
  have e1: "(if take 1 u = ''+'' \<or> take 1 u = ''-'' then drop 1 (u @ w) else u @ w) = s1 @ w"
    unfolding s1_def using d1 by auto
  have e2: "(if take 2 s1 = ''0x'' \<or> take 2 s1 = ''0X'' then drop 2 (s1 @ w) else s1 @ w) = s2 @ w"
    unfolding s2_def using d2 by auto
  show ?thesis
    unfolding parseInt16_body_def Let_def t1 e1 t2 e2 takeWhile_hex_ws[OF assms]
    unfolding s1_def[symmetric] s2_def[symmetric] ..
qed

lemma trim_decomp:
  "\<exists>w. dropWhile isWhiteSpace s = trim s @ w \<and> (\<forall>c\<in>set w. isWhiteSpace c)"
proof -
  let ?t = "dropWhile isWhiteSpace s"
  have "rev ?t = takeWhile isWhiteSpace (rev ?t) @ dropWhile isWhiteSpace (rev ?t)" by simp
  then have "?t = rev (dropWhile isWhiteSpace (rev ?t)) @ rev (takeWhile isWhiteSpace (rev ?t))"
    by (metis rev_append rev_rev_ident)
  moreover have "\<forall>c\<in>set (rev (takeWhile isWhiteSpace (rev ?t))). isWhiteSpace c"
    by (auto dest: set_takeWhileD)
  ultimately show ?thesis unfolding trim_def by blast
qed

lemma dropWhile_trim: "dropWhile isWhiteSpace (trim s) = trim s"
proof -
  obtain w where w: "dropWhile isWhiteSpace s = trim s @ w" using trim_decomp by blast
  show ?thesis
  proof (cases "trim s")
    case Nil then show ?thesis by simp
  next
    case (Cons a t)
    then have "hd (dropWhile isWhiteSpace s) = a" "dropWhile isWhiteSpace s \<noteq> []" using w by auto
    then have "\<not> isWhiteSpace a" using hd_dropWhile by metis
    then show ?thesis using Cons by simp
  qed
qed

lemma parseInt16_trim: "parseInt16 (trim s) = parseInt16 s"
proof -
  obtain w where w: "dropWhile isWhiteSpace s = trim s @ w" "\<forall>c\<in>set w. isWhiteSpace c"
    using trim_decomp by blast
  have "parseInt16 s = parseInt16_body (dropWhile isWhiteSpace s)"
    by (simp add: parseInt16_def)
  also have "\<dots> = parseInt16_body (trim s)" using w parseInt16_body_ws by simp
  also have "\<dots> = parseInt16 (trim s)"
    by (simp add: parseInt16_def dropWhile_trim)
  finally show ?thesis by simp
qed


text \<open>
  C6, as amended. \<^verbatim>\<open>isMilitaryAircraft\<close> is a function of the id, the callsign and the
  frozen configuration only. For a non-empty id it returns true exactly when the id, parsed
  as a base-16 integer, lies in one of the configured ranges, or else the trimmed,
  uppercased callsign starts with one of the configured prefixes; for an empty id it
  returns false whatever the callsign. For the id \<^verbatim>\<open>ADF7C9\<close> it returns true for every
  callsign.
\<close>

theorem C6_classifier:
  "isMilitaryAircraft ident cs = (ident \<noteq> [] \<and> classify_spec ident cs)
   \<and> isMilitaryAircraft ''ADF7C9'' cs"
proof
  have e: "\<not> list_ex (startsWith (toUpperCase (trim []))) callsignPrefixes"
    by (simp add: callsignPrefixes_def startsWith_def toUpperCase_def trim_def)
  define inRange where "inRange = (case parseInt16 ident of
         None \<Rightarrow> False
       | Some n \<Rightarrow> list_ex (\<lambda>(start, end). start \<le> n \<and> n \<le> end) icaoRanges)"
  define byCallsign where "byCallsign = (case cs of
            None \<Rightarrow> False
          | Some c \<Rightarrow> list_ex (startsWith (toUpperCase (trim c))) callsignPrefixes)"
  have r: "(case parseInt16 (trim ident) of
                 None \<Rightarrow> False
               | Some n \<Rightarrow> list_ex (\<lambda>(start, end). n \<ge> start \<and> n \<le> end) icaoRanges) = inRange"
    unfolding inRange_def parseInt16_trim
    by (rule option.case_cong[OF refl refl]) (simp add: conj_commute)
  have b: "(case cs of
                   None \<Rightarrow> False
                 | Some c \<Rightarrow>
                     if c = [] then False
                     else list_ex (startsWith (toUpperCase (trim c))) callsignPrefixes) = byCallsign"
  proof (cases cs)
    case None
    then show ?thesis by (simp add: byCallsign_def)
  next
    case (Some c)
    then show ?thesis using e by (cases "c = []") (simp_all add: byCallsign_def)
  qed
  have "isMilitaryAircraft ident cs = (if ident = [] then False else if inRange then True else byCallsign)"
    unfolding isMilitaryAircraft_def Let_def r b ..
  moreover have "classify_spec ident cs = (inRange \<or> byCallsign)"
    unfolding classify_spec_def inRange_def byCallsign_def ..
  ultimately show "isMilitaryAircraft ident cs = (ident \<noteq> [] \<and> classify_spec ident cs)"
    by simp
  have "parseInt16 (trim ''ADF7C9'') = Some 0xADF7C9"
    by (simp add: parseInt16_def parseInt16_body_def trim_def isWhiteSpace_def isHexDigit_def
        hexDigitValue_def)
  then show "isMilitaryAircraft ''ADF7C9'' cs"
    by (simp add: isMilitaryAircraft_def icaoRanges_def)
qed

text \<open>
  C6 as stated fails at the empty id: the callsign \<^verbatim>\<open>RCH123\<close> starts with the prefix
  \<^verbatim>\<open>RCH\<close>, so the stated criterion holds, yet the guard \<^verbatim>\<open>if (!icao24) return false\<close>
  answers false.
\<close>

theorem C6_counterexample:
  "classify_spec [] (Some ''RCH123'') \<and> \<not> isMilitaryAircraft [] (Some ''RCH123'')"
  by (simp add: classify_spec_def isMilitaryAircraft_def callsignPrefixes_def startsWith_def
      toUpperCase_def trim_def isWhiteSpace_def)

subsection \<open>The filter engine\<close>

lemma passesFilters_spec: "passesFilters f ac = passes_spec f ac"
  by (auto simp: passesFilters_def passes_spec_def Let_def split: option.splits)

lemma includes_str_iff: "includes_str s q \<longleftrightarrow> (\<exists>p r. s = p @ q @ r)"
proof (induction s)
  case Nil
  then show ?case by auto
next
  case (Cons c cs)
  show ?case
  proof
    assume "includes_str (c # cs) q"
    then consider "prefix q (c # cs)" | "includes_str cs q" by auto
    then show "\<exists>p r. c # cs = p @ q @ r"
    proof cases
      case 1
      then obtain r where "c # cs = q @ r" by (auto simp: prefix_def)
      then have "c # cs = [] @ q @ r" by simp
      then show ?thesis by blast
    next
      case 2
      then obtain p r where "cs = p @ q @ r" using Cons.IH by blast
      then have "c # cs = (c # p) @ q @ r" by simp
      then show ?thesis by blast
    qed
  next
    assume "\<exists>p r. c # cs = p @ q @ r"
    then obtain p r where e: "c # cs = p @ q @ r" by blast
    show "includes_str (c # cs) q"
    proof (cases p)
      case Nil
      then have "prefix q (c # cs)" using e by (simp add: prefix_def)
      then show ?thesis by simp
    next
      case (Cons a p')
      then have "cs = p' @ q @ r" using e by simp
      then show ?thesis using Cons.IH by auto
    qed
  qed
qed

text \<open>
  C5. \<^verbatim>\<open>applyFilters\<close> recomputes the view from the store and the filter state and
  touches nothing else. The view is exactly the stored records, in the order of the map,
  that pass every active predicate: the visibility flag of the record's class, the closed
  altitude band when the altitude is present, and, when the search string is not empty, a
  case-insensitive substring match on the callsign or the id. With both flags off the view
  is empty, and searching and then clearing the search gives the view of before the search.
  The order of the map is the order of first insertion: merging an observation keeps the
  keys in place and puts a new key last.
\<close>

theorem C5_filter:
  "filteredAircraft (applyFilters s) = filter (passes_spec (filters s)) (map snd (aircraftMap s))
   \<and> aircraftMap (applyFilters s) = aircraftMap s
   \<and> filters (applyFilters s) = filters s
   \<and> selectedAircraft (applyFilters s) = selectedAircraft s
   \<and> applyFilters (applyFilters s) = applyFilters s
   \<and> set (filteredAircraft (applyFilters s)) \<subseteq> snd ` set (aircraftMap s)
   \<and> (\<not> civilian (filters s) \<and> \<not> military (filters s) \<longrightarrow> filteredAircraft (applyFilters s) = [])
   \<and> (searchQuery (filters s) = [] \<longrightarrow>
        snd (setFilter (SearchQuery []) (snd (setFilter (SearchQuery q) s))) = applyFilters s)
   \<and> map fst (aircraftMap (mergeAircraft now ac s)) =
        (if icao24 ac \<in> set (map fst (aircraftMap s)) then map fst (aircraftMap s)
         else map fst (aircraftMap s) @ [icao24 ac])"
proof -
  have 1: "filteredAircraft (applyFilters s) = filter (passes_spec (filters s)) (map snd (aircraftMap s))"
    by (simp add: applyFilters_def passesFilters_spec[abs_def])
  have 2: "\<not> civilian (filters s) \<and> \<not> military (filters s) \<longrightarrow> filteredAircraft (applyFilters s) = []"
    unfolding 1 by (auto simp: passes_spec_def filter_empty_conv)
  have 3: "searchQuery (filters s) = [] \<longrightarrow>
        snd (setFilter (SearchQuery []) (snd (setFilter (SearchQuery q) s))) = applyFilters s"
  proof
    assume a: "searchQuery (filters s) = []"
    have "(filters s)\<lparr>searchQuery := []\<rparr> = filters s"
      using a by (cases "filters s") simp
    then show "snd (setFilter (SearchQuery []) (snd (setFilter (SearchQuery q) s))) = applyFilters s"
      by (simp add: applyFilters_def)
  qed
  have 4: "map fst (aircraftMap (mergeAircraft now ac s)) =
        (if icao24 ac \<in> set (map fst (aircraftMap s)) then map fst (aircraftMap s)
         else map fst (aircraftMap s) @ [icao24 ac])"
    by (simp add: mergeAircraft_def Let_def update_keys split: option.splits)
  have 5: "set (filteredAircraft (applyFilters s)) \<subseteq> snd ` set (aircraftMap s)"
    unfolding 1 by auto
  show ?thesis
    using 1 2 3 4 5 by (simp add: applyFilters_def)
qed

theorem C5_filter_witness:
  "\<not> civilian (filters (snd (setFilter (Military False) (snd (setFilter (Civilian False)
       (updateAircraft 0 [sample_aircraft 10 10 (Some [])] init_manager))))))
   \<and> \<not> military (filters (snd (setFilter (Military False) (snd (setFilter (Civilian False)
       (updateAircraft 0 [sample_aircraft 10 10 (Some [])] init_manager))))))
   \<and> filteredAircraft (applyFilters (snd (setFilter (Military False) (snd (setFilter (Civilian False)
       (updateAircraft 0 [sample_aircraft 10 10 (Some [])] init_manager)))))) = []
   \<and> searchQuery (filters (updateAircraft 0 [sample_aircraft 10 10 (Some [])] init_manager)) = []
   \<and> filteredAircraft (snd (setFilter (SearchQuery ''xyz'')
       (updateAircraft 0 [sample_aircraft 10 10 (Some [])] init_manager))) = []
   \<and> filteredAircraft (snd (setFilter (SearchQuery []) (snd (setFilter (SearchQuery ''xyz'')
       (updateAircraft 0 [sample_aircraft 10 10 (Some [])] init_manager)))))
       = [sample_aircraft 10 10 (Some [])]"
proof -
  let ?s = "updateAircraft 0 [sample_aircraft 10 10 (Some [])] init_manager"
  let ?off = "snd (setFilter (Military False) (snd (setFilter (Civilian False) ?s)))"
  have s: "?s = \<lparr>aircraftMap = [(''a1b2c3'', sample_aircraft 10 10 (Some []))],
                 filteredAircraft = [sample_aircraft 10 10 (Some [])], selectedAircraft = None,
                 filters = \<lparr>civilian = True, military = True, minAltitude = 0,
                            maxAltitude = 45000, searchQuery = []\<rparr>\<rparr>"
    by (simp add: updateAircraft_def init_manager_def mergeAircraft_def applyFilters_def
        sample_aircraft_def timeout_def passesFilters_def)
  have f: "\<not> civilian (filters ?off)" "\<not> military (filters ?off)"
    by (simp_all add: applyFilters_def)
  have q: "searchQuery (filters ?s) = []"
    by (simp add: s)
  have x: "filteredAircraft (snd (setFilter (SearchQuery ''xyz'') ?s)) = []"
    unfolding s
    by (simp add: applyFilters_def passesFilters_def sample_aircraft_def toLowerCase_def)
  have a: "filteredAircraft (applyFilters ?s) = [sample_aircraft 10 10 (Some [])]"
    unfolding s by (simp add: applyFilters_def passesFilters_def sample_aircraft_def)
  have off: "filteredAircraft (applyFilters ?off) = []"
    using C5_filter [of ?off] f by blast
  have clr: "snd (setFilter (SearchQuery []) (snd (setFilter (SearchQuery ''xyz'') ?s))) = applyFilters ?s"
    using C5_filter [of ?s "''xyz''"] q by blast
  show ?thesis
    unfolding clr using f q x a off by blast
qed

subsection \<open>The parser\<close>

lemma valid_iff:
  "isValidAircraftData la lo alt spd \<longleftrightarrow>
     \<not> (la < - 90 \<or> 90 < la) \<and> \<not> (lo < - 180 \<or> 180 < lo)
     \<and> \<not> (case alt of None \<Rightarrow> False | Some a \<Rightarrow> a < - 1000 \<or> 60000 < a)
     \<and> \<not> (case spd of None \<Rightarrow> False | Some k \<Rightarrow> k < 30 \<or> 700 < k)"
  by (cases alt; cases spd)
    (auto simp: isValidAircraftData_def dataQuality_minAltitude_def dataQuality_maxAltitude_def
      dataQuality_minSpeed_def dataQuality_maxSpeed_def)

lemma parse_None_iff: "parseStateVector now (StateVector v) = None \<longleftrightarrow> discarded_spec v"
proof (cases "latitude v")
  case None
  then show ?thesis by (simp add: discarded_spec_def)
next
  case la: (Some la)
  show ?thesis
  proof (cases "longitude v")
    case None
    then show ?thesis using la by (simp add: discarded_spec_def)
  next
    case lo: (Some lo)
    have "parseStateVector now (StateVector v) = None
            \<longleftrightarrow> \<not> isValidAircraftData la lo (altitude_ft v) (speed_kt v)"
      using la lo by (simp add: Let_def altitude_ft_def speed_kt_def)
    also have "\<dots> \<longleftrightarrow> discarded_spec v"
      using la lo unfolding valid_iff discarded_spec_def by simp
    finally show ?thesis .
  qed
qed

lemma parse_Some_fields:
  assumes "parseStateVector now (StateVector v) = Some ac"
  shows "latitude v = Some (lat ac) \<and> longitude v = Some (lon ac)
       \<and> altitude ac = altitude_ft v \<and> speed ac = speed_kt v
       \<and> trail ac = Some [] \<and> lastSeen ac = now \<and> icao24 ac = trim (raw_icao24 v)
       \<and> isMilitary ac = isMilitaryAircraft (raw_icao24 v) (raw_callsign v)"
proof -
  obtain la where la: "latitude v = Some la"
    using assms by (cases "latitude v") simp_all
  obtain lo where lo: "longitude v = Some lo"
    using assms la by (cases "longitude v") simp_all
  have v: "isValidAircraftData la lo (altitude_ft v) (speed_kt v)"
    using assms la lo by (simp add: Let_def altitude_ft_def speed_kt_def split: if_splits)
  have "Some ac = parseStateVector now (StateVector v)"
    using assms by simp
  then have f: "lat ac = la" "lon ac = lo" "altitude ac = altitude_ft v" "speed ac = speed_kt v"
      "trail ac = Some []" "lastSeen ac = now" "icao24 ac = trim (raw_icao24 v)"
      "isMilitary ac = isMilitaryAircraft (raw_icao24 v) (raw_callsign v)"
    using la lo v by (simp_all add: Let_def altitude_ft_def speed_kt_def)
  show ?thesis using la lo f by simp
qed

text \<open>
  C7, as amended. For every state vector the parser returns a complete aircraft object or
  null, nothing in between. It returns null exactly when the vector is too short, or its
  latitude or longitude is null, or the latitude is outside [-90, 90], or the longitude is
  outside [-180, 180], or the altitude (converted to feet and rounded) is outside
  [-1000, 60000], or the speed (converted to knots and rounded) is outside [30, 700]. A
  kept object carries the position and the converted altitude and speed as they are, never
  clamped. \<^verbatim>\<open>getAllStates\<close> leaves the nulls out of the batch it returns and raises no
  error for them; the dropped vectors are not counted anywhere.
\<close>

theorem C7_parser:
  "parseStateVector now TooShort = None
   \<and> (parseStateVector now (StateVector v) = None \<longleftrightarrow> discarded_spec v)
   \<and> (parseStateVector now (StateVector v) = Some ac \<longrightarrow>
        latitude v = Some (lat ac) \<and> longitude v = Some (lon ac)
        \<and> altitude ac = altitude_ft v \<and> speed ac = speed_kt v)
   \<and> (response_ok status \<longrightarrow>
        fst (getAllStates now (Response arrival status statusText (States states)) a)
          = Inr (List.map_filter (parseStateVector arrival) states))"
  using parse_None_iff parse_Some_fields
  by (auto simp: getAllStates_def Let_def)

theorem C7_parser_witness:
  "parseStateVector 5 (sample_vector 10 10) = Some ((sample_aircraft 10 10 (Some []))\<lparr>lastSeen := 5\<rparr>)
   \<and> response_ok 200
   \<and> fst (getAllStates 0 (Response 5 200 ''OK'' (States [sample_vector 10 10, sample_vector 91 10])) init_api)
       = Inr [(sample_aircraft 10 10 (Some []))\<lparr>lastSeen := 5\<rparr>]
   \<and> latitude (sample_fields 10 10) = Some 10
   \<and> altitude_ft (sample_fields 10 10) = Some 5000"
proof -
  have p: "parseStateVector 5 (sample_vector 10 10) = Some ((sample_aircraft 10 10 (Some []))\<lparr>lastSeen := 5\<rparr>)"
    by (rule parse_sample) simp_all
  have q: "parseStateVector 5 (sample_vector 91 10) = None"
    by (simp add: sample_vector_def sample_fields_def isValidAircraftData_def)
  have ok: "response_ok 200" by (simp add: response_ok_def)
  have v: "sample_vector 10 10 = StateVector (sample_fields 10 10)"
    by (simp add: sample_vector_def)
  have "fst (getAllStates 0 (Response 5 200 ''OK'' (States [sample_vector 10 10, sample_vector 91 10])) init_api)
          = Inr (List.map_filter (parseStateVector 5) [sample_vector 10 10, sample_vector 91 10])"
    using C7_parser [of 0 _ _ 200 5 "''OK''" "[sample_vector 10 10, sample_vector 91 10]" init_api] ok
    by blast
  moreover have "latitude (sample_fields 10 10) = Some 10
      \<and> altitude_ft (sample_fields 10 10) = Some 5000"
    using C7_parser [of 5 "sample_fields 10 10"
        "(sample_aircraft 10 10 (Some []))\<lparr>lastSeen := 5\<rparr>"] p v
    by (simp add: sample_aircraft_def)
  ultimately show ?thesis
    using p q ok by (simp add: List.map_filter_def)
qed

text \<open>
  C7 as stated says the dropped vectors are counted. A feed with one vector dropped and a
  feed with none dropped give the same returned batch, the same module state, and the same
  application state after the poll: nothing retains how many vectors were dropped.
\<close>

theorem C7_counterexample:
  "parseStateVector 10100 (sample_vector 91 10) = None
   \<and> getAllStates 10000 (Response 10100 200 ''OK'' (States [sample_vector 10 10, sample_vector 91 10])) init_api
     = getAllStates 10000 (Response 10100 200 ''OK'' (States [sample_vector 10 10])) init_api
   \<and> fetchAndUpdate 10000 (Response 10100 200 ''OK'' (States [sample_vector 10 10, sample_vector 91 10])) init_app
     = fetchAndUpdate 10000 (Response 10100 200 ''OK'' (States [sample_vector 10 10])) init_app"
proof -
  have q: "parseStateVector 10100 (sample_vector 91 10) = None"
    by (simp add: sample_vector_def sample_fields_def isValidAircraftData_def)
  have g: "getAllStates 10000 (Response 10100 200 ''OK'' (States [sample_vector 10 10, sample_vector 91 10])) init_api
     = getAllStates 10000 (Response 10100 200 ''OK'' (States [sample_vector 10 10])) init_api"
    using q by (simp add: getAllStates_def List.map_filter_def response_ok_def)
  have a: "app_api init_app = init_api" by (simp add: init_app_def)
  have t: "arrival_time 10000 (Response 10100 200 ''OK'' b) = 10100" for b
    by (simp add: arrival_time_def)
  show ?thesis
    using q g unfolding fetchAndUpdate_def a t by simp
qed

subsection \<open>Fetching\<close>

lemma getAllStates_fetches:
  "fetches (snd (getAllStates now outcome a)) = fetches a @ [waitForRateLimit now a]"
  by (simp add: getAllStates_def Let_def split: fetch_outcome.splits json_body.splits)

lemma getAllStates_failed:
  "failed_fetch outcome \<Longrightarrow> \<exists>e. fst (getAllStates now outcome a) = Inl e"
  by (auto simp: getAllStates_def failed_fetch_def Let_def split: fetch_outcome.splits)

text \<open>
  C8. When the fetch fails (the network rejects it, or the response has a status that is not
  a success, 429 included), \<^verbatim>\<open>getAllStates\<close> rejects: its caller gets an error, never a
  batch. It has called \<^verbatim>\<open>fetch\<close> exactly once, so nothing was retried. The poller then
  leaves the manager as it was: \<^verbatim>\<open>updateAircraft\<close> is not called.
\<close>

theorem C8_fetch_failure:
  assumes "failed_fetch outcome"
  shows "(\<exists>e. fst (getAllStates now outcome a) = Inl e)
       \<and> (\<forall>xs. fst (getAllStates now outcome a) \<noteq> Inr xs)
       \<and> length (fetches (snd (getAllStates now outcome a))) = length (fetches a) + 1
       \<and> app_manager (fetchAndUpdate now outcome ap) = app_manager ap
       \<and> length (fetches (app_api (fetchAndUpdate now outcome ap))) \<le> length (fetches (app_api ap)) + 1
       \<and> (canMakeRequest now (app_api ap) \<longrightarrow>
            toasts (fetchAndUpdate now outcome ap) = toasts ap @ [projl (fst (getAllStates now outcome (app_api ap)))])"
proof -
  obtain e where e: "fst (getAllStates now outcome a) = Inl e"
    using getAllStates_failed[OF assms] by blast
  obtain e' where e': "fst (getAllStates now outcome (app_api ap)) = Inl e'"
    using getAllStates_failed[OF assms] by blast
  have f: "length (fetches (snd (getAllStates now outcome a))) = length (fetches a) + 1" for a
    by (simp add: getAllStates_fetches)
  obtain r a' where r: "getAllStates now outcome (app_api ap) = (r, a')" by (cases "getAllStates now outcome (app_api ap)")
  then have r': "r = Inl e'" "length (fetches a') = length (fetches (app_api ap)) + 1"
    using e' f[of "app_api ap"] by auto
  show ?thesis
    using e f r r' e' by (auto simp: fetchAndUpdate_def)
qed

theorem C8_fetch_failure_witness:
  "failed_fetch (Response 10100 429 ''Too Many Requests'' NoStates)
   \<and> fst (getAllStates 10000 (Response 10100 429 ''Too Many Requests'' NoStates) init_api) = Inl RateLimitExceeded
   \<and> failed_fetch (NetworkError ''Failed to fetch'')
   \<and> canMakeRequest 10000 (app_api init_app)
   \<and> app_manager (fetchAndUpdate 10000 (NetworkError ''Failed to fetch'') init_app) = init_manager
   \<and> fetches (app_api (fetchAndUpdate 10000 (NetworkError ''Failed to fetch'') init_app)) = [10000]
   \<and> toasts (fetchAndUpdate 10000 (NetworkError ''Failed to fetch'') init_app) = [FetchRejected ''Failed to fetch'']"
proof -
  have f1: "failed_fetch (Response 10100 429 ''Too Many Requests'' NoStates)"
    by (simp add: failed_fetch_def response_ok_def)
  have f2: "failed_fetch (NetworkError ''Failed to fetch'')"
    by (simp add: failed_fetch_def)
  have c: "canMakeRequest 10000 (app_api init_app)"
    by (simp add: canMakeRequest_def init_app_def init_api_def minInterval_def)
  have m: "app_manager init_app = init_manager" "toasts init_app = []"
    by (simp_all add: init_app_def)
  have "app_manager (fetchAndUpdate 10000 (NetworkError ''Failed to fetch'') init_app) = init_manager"
    using C8_fetch_failure [OF f2, of 10000 init_api init_app] m by simp
  moreover have "toasts (fetchAndUpdate 10000 (NetworkError ''Failed to fetch'') init_app) =
      [projl (fst (getAllStates 10000 (NetworkError ''Failed to fetch'') (app_api init_app)))]"
    using C8_fetch_failure [OF f2, of 10000 init_api init_app] m c by simp
  moreover have "\<exists>e. fst (getAllStates 10000 (Response 10100 429 ''Too Many Requests'' NoStates) init_api) = Inl e"
    using C8_fetch_failure [OF f1, of 10000 init_api init_app] by blast
  ultimately show ?thesis
    using f1 f2 c
    by (simp add: getAllStates_def response_ok_def fetchAndUpdate_def init_app_def init_api_def
        waitForRateLimit_def)
qed

text \<open>
  C9, as amended. When a poll is attempted while fewer than 10000 ms have passed since
  \<^verbatim>\<open>lastRequestTime\<close>, the attempt is skipped, not queued: no fetch is issued and neither
  the store nor anything else changes. \<^verbatim>\<open>lastRequestTime\<close> is the arrival of the last
  response; a fetch that the network rejected leaves it as it was.
\<close>

theorem C9_skip:
  "(\<not> canMakeRequest now (app_api ap) \<longrightarrow> fetchAndUpdate now outcome ap = ap)
   \<and> (canMakeRequest now a \<longleftrightarrow> now - lastRequestTime a \<ge> 10000)
   \<and> lastRequestTime (snd (getAllStates now (Response arrival status statusText body) a)) = arrival
   \<and> lastRequestTime (snd (getAllStates now (NetworkError msg) a)) = lastRequestTime a"
  by (auto simp: fetchAndUpdate_def canMakeRequest_def minInterval_def getAllStates_def Let_def
      split: json_body.splits)

theorem C9_skip_witness:
  "\<not> canMakeRequest 19000 (app_api (fetchAndUpdate 10000 (Response 10100 200 ''OK'' NoStates) init_app))
   \<and> fetchAndUpdate 19000 (Response 19100 200 ''OK'' (States [sample_vector 10 10]))
        (fetchAndUpdate 10000 (Response 10100 200 ''OK'' NoStates) init_app)
       = fetchAndUpdate 10000 (Response 10100 200 ''OK'' NoStates) init_app
   \<and> fetches (app_api (fetchAndUpdate 19000 (Response 19100 200 ''OK'' (States [sample_vector 10 10]))
        (fetchAndUpdate 10000 (Response 10100 200 ''OK'' NoStates) init_app))) = [10000]"
proof -
  let ?ap = "fetchAndUpdate 10000 (Response 10100 200 ''OK'' NoStates) init_app"
  have a: "app_api ?ap = \<lparr>lastRequestTime = 10100, fetches = [10000]\<rparr>"
    by (simp add: fetchAndUpdate_def init_app_def init_api_def canMakeRequest_def minInterval_def
        getAllStates_def waitForRateLimit_def response_ok_def)
  have c: "\<not> canMakeRequest 19000 (app_api ?ap)"
    by (simp add: a canMakeRequest_def minInterval_def)
  have "fetchAndUpdate 19000 (Response 19100 200 ''OK'' (States [sample_vector 10 10])) ?ap = ?ap"
    using C9_skip [of 19000 ?ap "Response 19100 200 ''OK'' (States [sample_vector 10 10])"] c
    by blast
  then show ?thesis using c a by simp
qed

text \<open>
  C9 as stated measures the interval from the last outbound fetch. A fetch goes out at
  10000 and is rejected by the network; the poll at 10500, only 500 ms later, is not
  skipped: it issues a second fetch and the store takes the batch.
\<close>

theorem C9_counterexample:
  "fetches (app_api (fetchAndUpdate 10000 (NetworkError ''Failed to fetch'') init_app)) = [10000]
   \<and> (10500 :: int) - 10000 < minInterval
   \<and> fetches (app_api (fetchAndUpdate 10500 (Response 10600 200 ''OK'' (States [sample_vector 10 10]))
         (fetchAndUpdate 10000 (NetworkError ''Failed to fetch'') init_app))) = [10000, 10500]
   \<and> map fst (aircraftMap (app_manager (fetchAndUpdate 10000 (NetworkError ''Failed to fetch'') init_app))) = []
   \<and> map fst (aircraftMap (app_manager
         (fetchAndUpdate 10500 (Response 10600 200 ''OK'' (States [sample_vector 10 10]))
         (fetchAndUpdate 10000 (NetworkError ''Failed to fetch'') init_app)))) = [''a1b2c3'']"
proof -
  let ?ap = "fetchAndUpdate 10000 (NetworkError ''Failed to fetch'') init_app"
  have ap: "?ap = \<lparr>app_api = \<lparr>lastRequestTime = 0, fetches = [10000]\<rparr>, app_manager = init_manager,
                  toasts = [FetchRejected ''Failed to fetch'']\<rparr>"
    by (simp add: fetchAndUpdate_def init_app_def init_api_def canMakeRequest_def minInterval_def
        getAllStates_def waitForRateLimit_def)
  have p: "parseStateVector 10600 (sample_vector 10 10) = Some ((sample_aircraft 10 10 (Some []))\<lparr>lastSeen := 10600\<rparr>)"
    by (rule parse_sample) simp_all
  show ?thesis
    unfolding ap
    by (simp add: fetchAndUpdate_def canMakeRequest_def minInterval_def getAllStates_def
        waitForRateLimit_def response_ok_def List.map_filter_def p arrival_time_def
        updateAircraft_def mergeAircraft_def init_manager_def applyFilters_def
        sample_aircraft_def timeout_def)
qed

subsection \<open>Great-circle distance\<close>


lemma atan2_sin_cos:
  assumes "0 \<le> h" "h < pi / 2"
  shows "atan2 (sin h) (cos h) = h"
proof -
  have c: "0 < cos h" using assms by (intro cos_gt_zero_pi) auto
  have "arctan (sin h / cos h) = arctan (tan h)" by (simp add: tan_def)
  also have "\<dots> = h" using assms by (intro arctan_tan) auto
  finally show ?thesis using c by (simp add: atan2_def)
qed

lemma distance_along_meridian:
  assumes "0 \<le> lat2 - lat1" "lat2 - lat1 < 180"
  shows "calculateDistance lat1 lo lat2 lo = 6371 * toRad (lat2 - lat1)"
proof -
  define h where "h = toRad (lat2 - lat1) / 2"
  have "(lat2 - lat1) * (pi / 180) < 180 * (pi / 180)"
    using assms(2) by (intro mult_strict_right_mono) simp_all
  moreover have "0 \<le> (lat2 - lat1) * (pi / 180)"
    using assms(1) by (intro mult_nonneg_nonneg) simp_all
  ultimately have h: "0 \<le> h" "h < pi / 2"
    by (simp_all add: h_def toRad_def)
  have s: "0 \<le> sin h" using h by (intro sin_ge_zero) auto
  have c: "0 < cos h" using h by (intro cos_gt_zero_pi) auto
  have a: "sin h * sin h + cos (toRad lat1) * cos (toRad lat2) * sin (toRad (lo - lo) / 2) * sin (toRad (lo - lo) / 2)
             = sin h * sin h"
    by (simp add: toRad_def)
  have "cos h * cos h + sin h * sin h = 1"
    by simp
  then have "1 - sin h * sin h = cos h * cos h"
    by linarith
  then have r: "sqrt (sin h * sin h) = sin h" "sqrt (1 - sin h * sin h) = cos h"
    using s c by simp_all
  have "calculateDistance lat1 lo lat2 lo = 6371 * (2 * atan2 (sin h) (cos h))"
    unfolding calculateDistance_def Let_def h_def[symmetric] a r ..
  also have "\<dots> = 6371 * toRad (lat2 - lat1)"
    unfolding atan2_sin_cos[OF h] by (simp add: h_def)
  finally show ?thesis .
qed

lemma distance_half_km: "calculateDistance 10 10 10.0045 10 \<ge> 0.1"
proof -
  have "calculateDistance 10 10 10.0045 10 = 6371 * toRad (10.0045 - 10)"
    by (rule distance_along_meridian) simp_all
  also have "\<dots> = (6371 * 45 / 1800000) * pi" by (simp add: toRad_def)
  finally show ?thesis using pi_ge_two by simp
qed

lemma distance_fifty_m: "calculateDistance 10 10 10.00045 10 < 0.1"
proof -
  have "calculateDistance 10 10 10.00045 10 = 6371 * toRad (10.00045 - 10)"
    by (rule distance_along_meridian) simp_all
  also have "\<dots> = (6371 * 45 / 18000000) * pi" by (simp add: toRad_def)
  finally show ?thesis using pi_less_4 by simp
qed

subsection \<open>The trail tracker\<close>

lemma addTrailPoint_skip:
  assumes "trail_of ac \<noteq> []"
      and "calculateDistance (p_lat (last (trail_of ac))) (p_lon (last (trail_of ac))) (lat newData) (lon newData) < 0.1"
  shows "addTrailPoint now ac newData = ac\<lparr>trail := Some (trail_of ac)\<rparr>"
  using assms by (simp add: addTrailPoint_def trail_of_def Let_def)

lemma addTrailPoint_append:
  assumes "trail_of ac = [] \<or>
     calculateDistance (p_lat (last (trail_of ac))) (p_lon (last (trail_of ac))) (lat newData) (lon newData) \<ge> 0.1"
  shows "addTrailPoint now ac newData = ac\<lparr>trail := Some (pruned now (trail_of ac @ [newPoint now newData]))\<rparr>"
  using assms by (auto simp: addTrailPoint_def trail_of_def Let_def pruned_def newPoint_def)


lemma pruned_id:
  assumes "length tr \<le> trailMaxPoints" "\<forall>p\<in>set tr. now - p_time p < trailDuration"
  shows "pruned now tr = tr"
  using assms by (simp add: pruned_def)

lemma update_first:
  assumes "aircraftMap s = []"
  shows "aircraftMap (updateAircraft now [ac] s) = [(icao24 ac, ac\<lparr>lastSeen := now, trail := Some []\<rparr>)]"
  using assms by (simp add: updateAircraft_def mergeAircraft_def applyFilters_def Let_def)

lemma update_again:
  assumes "aircraftMap s = [(icao24 ac, ex)]"
  shows "aircraftMap (updateAircraft now [ac] s)
           = [(icao24 ac, (Object_assign (addTrailPoint now ex ac) ac)\<lparr>lastSeen := now\<rparr>)]"
  using assms
  by (simp add: updateAircraft_def mergeAircraft_def applyFilters_def Let_def features_trails_def)

text \<open>
  C2, as amended. \<^verbatim>\<open>addTrailPoint\<close> measures the displacement from the last trail point.
  On a record whose trail is not empty, a displacement below 0.1 km leaves the record as it
  is; a displacement of 0.1 km or more appends exactly one point, after which the trail is
  cut to its most recent \<open>trailMaxPoints\<close> points and then freed of the points as old as
  \<open>trailDuration\<close>, so that a trail with fewer than \<open>trailMaxPoints\<close> points, all recent,
  grows by one. A record created by the first observation of an id starts with an empty
  trail.
\<close>

theorem C2_trail_threshold:
  assumes "trail ac = Some tr" and "tr \<noteq> []"
  shows "(calculateDistance (p_lat (last tr)) (p_lon (last tr)) (lat newData) (lon newData) < 0.1
            \<longrightarrow> addTrailPoint now ac newData = ac)
       \<and> (calculateDistance (p_lat (last tr)) (p_lon (last tr)) (lat newData) (lon newData) \<ge> 0.1
            \<longrightarrow> trail (addTrailPoint now ac newData) = Some (pruned now (tr @ [newPoint now newData])))
       \<and> (calculateDistance (p_lat (last tr)) (p_lon (last tr)) (lat newData) (lon newData) \<ge> 0.1
            \<and> length tr < trailMaxPoints \<and> (\<forall>p\<in>set tr. now - p_time p < trailDuration)
            \<longrightarrow> trail (addTrailPoint now ac newData) = Some (tr @ [newPoint now newData]))
       \<and> (map_of (aircraftMap s) (icao24 newData) = None
            \<longrightarrow> map_option trail (map_of (aircraftMap (mergeAircraft now newData s)) (icao24 newData))
                  = Some (Some []))"
proof -
  have t: "trail_of ac = tr" using assms(1) by (simp add: trail_of_def)
  have 4: "map_of (aircraftMap s) (icao24 newData) = None
            \<longrightarrow> map_option trail (map_of (aircraftMap (mergeAircraft now newData s)) (icao24 newData))
                  = Some (Some [])"
    by (simp add: mergeAircraft_def update_conv')
  have same: "ac\<lparr>trail := Some tr\<rparr> = ac" using assms(1) by simp
  have 1: "calculateDistance (p_lat (last tr)) (p_lon (last tr)) (lat newData) (lon newData) < 0.1
            \<longrightarrow> addTrailPoint now ac newData = ac"
    using addTrailPoint_skip[of ac newData now] assms(2) same unfolding t by simp
  have 2: "calculateDistance (p_lat (last tr)) (p_lon (last tr)) (lat newData) (lon newData) \<ge> 0.1
            \<longrightarrow> trail (addTrailPoint now ac newData) = Some (pruned now (tr @ [newPoint now newData]))"
    using addTrailPoint_append[of ac newData now] unfolding t by simp
  have y: "now - p_time (newPoint now newData) < trailDuration"
    by (simp add: newPoint_def trailDuration_def)
  have 3: "length tr < trailMaxPoints \<and> (\<forall>p\<in>set tr. now - p_time p < trailDuration)
         \<longrightarrow> pruned now (tr @ [newPoint now newData]) = tr @ [newPoint now newData]"
    using y by (auto intro!: pruned_id)
  show ?thesis using 1 2 3 4 by simp
qed

theorem C2_trail_threshold_witness:
  "trail (sample_aircraft 10 10 (Some [\<lparr>p_lat = 10, p_lon = 10, p_altitude = Some 5000, p_time = 0\<rparr>]))
     = Some [\<lparr>p_lat = 10, p_lon = 10, p_altitude = Some 5000, p_time = 0\<rparr>]
   \<and> calculateDistance 10 10 10.00045 10 < 0.1
   \<and> map_option length (trail (addTrailPoint 10000
         (sample_aircraft 10 10 (Some [\<lparr>p_lat = 10, p_lon = 10, p_altitude = Some 5000, p_time = 0\<rparr>]))
         (sample_aircraft 10.00045 10 (Some [])))) = Some 1
   \<and> calculateDistance 10 10 10.0045 10 \<ge> 0.1
   \<and> map_option length (trail (addTrailPoint 10000
         (sample_aircraft 10 10 (Some [\<lparr>p_lat = 10, p_lon = 10, p_altitude = Some 5000, p_time = 0\<rparr>]))
         (sample_aircraft 10.0045 10 (Some [])))) = Some 2
   \<and> map_of (aircraftMap init_manager) (icao24 (sample_aircraft 10.0045 10 (Some []))) = None
   \<and> map_option trail (map_of (aircraftMap (mergeAircraft 10000 (sample_aircraft 10.0045 10 (Some [])) init_manager))
         (icao24 (sample_aircraft 10.0045 10 (Some [])))) = Some (Some [])"
proof -
  let ?p = "\<lparr>p_lat = 10, p_lon = 10, p_altitude = Some 5000, p_time = 0\<rparr>"
  let ?ac = "sample_aircraft 10 10 (Some [?p])"
  have t: "trail ?ac = Some [?p]" by (simp add: sample_aircraft_def)
  have n: "[?p] \<noteq> []" by simp
  have near: "calculateDistance (p_lat (last [?p])) (p_lon (last [?p]))
      (lat (sample_aircraft 10.00045 10 (Some []))) (lon (sample_aircraft 10.00045 10 (Some []))) < 0.1"
    using distance_fifty_m by (simp add: sample_aircraft_def)
  have far: "calculateDistance (p_lat (last [?p])) (p_lon (last [?p]))
      (lat (sample_aircraft 10.0045 10 (Some []))) (lon (sample_aircraft 10.0045 10 (Some []))) \<ge> 0.1"
    using distance_half_km by (simp add: sample_aircraft_def)
  have y: "length [?p] < trailMaxPoints \<and> (\<forall>p\<in>set [?p]. 10000 - p_time p < trailDuration)"
    by (simp add: trailMaxPoints_def trailDuration_def)
  have 1: "addTrailPoint 10000 ?ac (sample_aircraft 10.00045 10 (Some [])) = ?ac"
    using C2_trail_threshold [OF t n, of "sample_aircraft 10.00045 10 (Some [])" 10000] near
    by blast
  have 2: "trail (addTrailPoint 10000 ?ac (sample_aircraft 10.0045 10 (Some [])))
             = Some ([?p] @ [newPoint 10000 (sample_aircraft 10.0045 10 (Some []))])"
    using C2_trail_threshold [OF t n, of "sample_aircraft 10.0045 10 (Some [])" 10000] far y
    by blast
  have e: "map_of (aircraftMap init_manager) (icao24 (sample_aircraft 10.0045 10 (Some []))) = None"
    by (simp add: init_manager_def)
  have 3: "map_option trail (map_of (aircraftMap (mergeAircraft 10000 (sample_aircraft 10.0045 10 (Some [])) init_manager))
         (icao24 (sample_aircraft 10.0045 10 (Some [])))) = Some (Some [])"
    using C2_trail_threshold [OF t n, of "sample_aircraft 10.0045 10 (Some [])" 10000 init_manager] e
    by blast
  show ?thesis
    unfolding 1 2 using t distance_fifty_m distance_half_km e 3 by simp
qed

text \<open>
  C2 as stated fails on its own scenario. Two sequential ingests of one aircraft at positions
  of the same longitude and 0.0045 degrees of latitude (about 0.5 km) apart do not bring the
  trail to two points: the first ingest creates the record with an empty trail, so the
  second can add the first point at most. With objects that carry no \<^verbatim>\<open>trail\<close>
  property the trail has one point; with the objects of \<^verbatim>\<open>parseStateVector\<close>, which
  carry \<^verbatim>\<open>trail: []\<close>, it has none.
\<close>

theorem C2_counterexample:
  "calculateDistance 10 10 10.0045 10 \<ge> 0.1
   \<and> map_option trail (getAircraft ''a1b2c3''
         (updateAircraft 10000 [sample_aircraft 10.0045 10 None]
           (updateAircraft 0 [sample_aircraft 10 10 None] init_manager)))
       = Some (Some [\<lparr>p_lat = 10.0045, p_lon = 10, p_altitude = Some 5000, p_time = 10000\<rparr>])
   \<and> map_option trail (getAircraft ''a1b2c3''
         (updateAircraft 10000 [sample_aircraft 10.0045 10 (Some [])]
           (updateAircraft 0 [sample_aircraft 10 10 (Some [])] init_manager)))
       = Some (Some [])"
proof -
  have k: "icao24 (sample_aircraft la lo tr) = ''a1b2c3''" for la lo tr
    by (simp add: sample_aircraft_def)
  have f: "aircraftMap (updateAircraft 0 [sample_aircraft 10 10 tr] init_manager)
          = [(''a1b2c3'', (sample_aircraft 10 10 tr)\<lparr>lastSeen := 0, trail := Some []\<rparr>)]" for tr
    using update_first [of init_manager 0 "sample_aircraft 10 10 tr"]
    by (simp add: k init_manager_def)
  have g: "aircraftMap (updateAircraft 10000 [sample_aircraft 10.0045 10 tr']
             (updateAircraft 0 [sample_aircraft 10 10 tr] init_manager))
          = [(''a1b2c3'', (Object_assign (addTrailPoint 10000
                ((sample_aircraft 10 10 tr)\<lparr>lastSeen := 0, trail := Some []\<rparr>)
                (sample_aircraft 10.0045 10 tr')) (sample_aircraft 10.0045 10 tr'))\<lparr>lastSeen := 10000\<rparr>)]"
    for tr tr'
    using update_again [of "updateAircraft 0 [sample_aircraft 10 10 tr] init_manager"
        "sample_aircraft 10.0045 10 tr'" _ 10000]
    by (simp add: k f)
  have a: "trail (addTrailPoint 10000 ((sample_aircraft 10 10 tr)\<lparr>lastSeen := 0, trail := Some []\<rparr>)
             (sample_aircraft la lo tr'))
           = Some [\<lparr>p_lat = la, p_lon = lo, p_altitude = Some 5000, p_time = 10000\<rparr>]" for tr tr' la lo
    by (simp add: addTrailPoint_def trailMaxPoints_def trailDuration_def sample_aircraft_def)
  have t: "trail (sample_aircraft la lo tr) = tr" for la lo tr
    by (simp add: sample_aircraft_def)
  show ?thesis
    unfolding getAircraft_def g using distance_half_km
    by (simp add: Object_assign_def a t)
qed

subsection \<open>Trails through the store\<close>

lemma fetchAndUpdate_ok:
  assumes "canMakeRequest now (app_api ap)" and "response_ok st"
  shows "app_manager (fetchAndUpdate now (Response t st txt (States sts)) ap)
           = updateAircraft t (List.map_filter (parseStateVector t) sts) (app_manager ap)"
    and "lastRequestTime (app_api (fetchAndUpdate now (Response t st txt (States sts)) ap)) = t"
  using assms by (simp_all add: fetchAndUpdate_def getAllStates_def arrival_time_def)



lemma stored_trail_own:
  assumes "trail ac = Some t"
  shows "trail ((Object_assign ex ac)\<lparr>lastSeen := now\<rparr>) = Some t"
  using assms by (simp add: Object_assign_def)


text \<open>
  C10. A record created on the first observation of an id starts with an empty trail
  (\<open>update_first\<close>), and \<^verbatim>\<open>addTrailPoint\<close> on a record whose trail is empty appends the new
  position without a displacement check (\<open>addTrailPoint_first_point\<close>); an observation that
  has no \<^verbatim>\<open>trail\<close> property of its own leaves that point in place
  (\<open>second_observation_without_trail\<close>). The objects of the feed do have one:
  \<^verbatim>\<open>parseStateVector\<close> builds them with \<^verbatim>\<open>trail: []\<close>, and
  \<^verbatim>\<open>Object.assign(existing, aircraft)\<close> copies it over the trail that was just extended.
  Two polls that each bring one state vector of the same aircraft, one degree of latitude
  apart, leave the stored trail empty, not with one point.
\<close>

theorem C10_trail_reset:
  "map_option trail (getAircraft ''a1b2c3'' (app_manager
      (fetchAndUpdate 21000 (Response 21100 200 ''OK'' (States [sample_vector 11 10]))
        (fetchAndUpdate 10000 (Response 10100 200 ''OK'' (States [sample_vector 10 10])) init_app))))
     = Some (Some [])"
proof -
  let ?ap = "fetchAndUpdate 10000 (Response 10100 200 ''OK'' (States [sample_vector 10 10])) init_app"
  have p: "parseStateVector t (sample_vector la 10) = Some ((sample_aircraft la 10 (Some []))\<lparr>lastSeen := t\<rparr>)"
    if "- 90 \<le> la" "la \<le> 90" for t la
    using that by (intro parse_sample) simp_all
  have k: "icao24 ((sample_aircraft la lo tr)\<lparr>lastSeen := t\<rparr>) = ''a1b2c3''" for la lo tr t
    by (simp add: sample_aircraft_def)
  have ok: "response_ok 200" by (simp add: response_ok_def)
  have c1: "canMakeRequest 10000 (app_api init_app)"
    by (simp add: canMakeRequest_def init_app_def init_api_def minInterval_def)
  have m1: "app_manager ?ap = updateAircraft 10100 [(sample_aircraft 10 10 (Some []))\<lparr>lastSeen := 10100\<rparr>] init_manager"
    using fetchAndUpdate_ok(1)[OF c1 ok, of 10100 "''OK''" "[sample_vector 10 10]"]
    by (simp add: List.map_filter_def p init_app_def)
  have a1: "aircraftMap (app_manager ?ap)
      = [(''a1b2c3'', (sample_aircraft 10 10 (Some []))\<lparr>lastSeen := 10100, trail := Some []\<rparr>)]"
    unfolding m1
    using update_first [of init_manager 10100 "(sample_aircraft 10 10 (Some []))\<lparr>lastSeen := 10100\<rparr>"]
    by (simp add: k init_manager_def)
  have c2: "canMakeRequest 21000 (app_api ?ap)"
    using fetchAndUpdate_ok(2)[OF c1 ok, of 10100 "''OK''" "[sample_vector 10 10]"]
    by (simp add: canMakeRequest_def minInterval_def)
  have m2: "app_manager (fetchAndUpdate 21000 (Response 21100 200 ''OK'' (States [sample_vector 11 10])) ?ap)
      = updateAircraft 21100 [(sample_aircraft 11 10 (Some []))\<lparr>lastSeen := 21100\<rparr>] (app_manager ?ap)"
    using fetchAndUpdate_ok(1)[OF c2 ok, of 21100 "''OK''" "[sample_vector 11 10]"]
    by (simp add: List.map_filter_def p)
  have a2: "aircraftMap (updateAircraft 21100 [(sample_aircraft 11 10 (Some []))\<lparr>lastSeen := 21100\<rparr>] (app_manager ?ap))
      = [(''a1b2c3'', (Object_assign (addTrailPoint 21100
             ((sample_aircraft 10 10 (Some []))\<lparr>lastSeen := 10100, trail := Some []\<rparr>)
             ((sample_aircraft 11 10 (Some []))\<lparr>lastSeen := 21100\<rparr>))
             ((sample_aircraft 11 10 (Some []))\<lparr>lastSeen := 21100\<rparr>))\<lparr>lastSeen := 21100\<rparr>)]"
    using update_again [of "app_manager ?ap" "(sample_aircraft 11 10 (Some []))\<lparr>lastSeen := 21100\<rparr>" _ 21100]
    by (simp add: k a1)
  have t: "trail ((sample_aircraft la lo tr)\<lparr>lastSeen := x\<rparr>) = tr" for la lo tr x
    by (simp add: sample_aircraft_def)
  show ?thesis
    unfolding m2 getAircraft_def a2 by (simp add: Object_assign_def t)
qed

subsection \<open>Trail bounds\<close>









subsection \<open>Reconciling a batch twice\<close>























end
